theory Spec2Isabelle
  imports Main
begin

section \<open>User administration actions (app/actions/user-management-actions.ts)\<close>

text \<open>
  The action layer marshals its arguments into calls against an external identity and data
  service and shapes the outcome into an \<open>ActionResult\<close>. The service is not part of the
  program: it is a parameter of the model, a function from its own state and a request to an
  outcome and a new state, so every theorem holds for every service.

  Conventions of the embedding:
  \<^item> an awaited call either returns a response \<open>{data, error}\<close> or throws; the error object
    of a response and a thrown exception are represented by their \<open>message\<close> text
    (the service's error types and JavaScript's \<open>Error\<close> carry a string message);
  \<open>createClient\<close> is a call of the same kind whose response is not inspected;
  \<^item> a function of the source is an action on a world (service state and trace of events);
    it finishes with \<open>Done v\<close> or with \<open>Raised m\<close>, an exception leaving the function;
  \<^item> each call and each console line is appended to the trace, so that "which calls were
    issued, with which arguments" is a property of the trace;
  \<^item> template strings are list concatenation; a number in a template is its decimal text.
\<close>

subsection \<open>Data model\<close>

record ActionResult =
  success :: bool
  message :: string
  error :: "string option"

text \<open>The type \<open>'client' | 'admin'\<close> and the string each value is.\<close>

datatype role = client | admin

fun role_text :: "role \<Rightarrow> string" where
  "role_text client = ''client''"
| "role_text admin = ''admin''"

text \<open>A row of \<open>profiles\<close> projected to \<open>id, role\<close>.\<close>

record profile =
  profile_id :: string
  profile_role :: string

text \<open>The two attribute objects the source passes to \<open>updateUserById\<close>:
  \<open>{ email }\<close> and \<open>{ app_metadata: { role } }\<close>.\<close>

datatype user_attributes = EmailAttr string | AppMetadataRole string

text \<open>The options object of \<open>inviteUserByEmail\<close>.\<close>

record invite_options =
  data_role :: string
  app_metadata_role :: string
  redirectTo :: string

text \<open>The options object of \<open>signInWithOtp\<close>.\<close>

record otp_options =
  shouldCreateUser :: bool
  emailRedirectTo :: string

datatype request =
    CreateClient bool
  | UpdateUserById string user_attributes
  | UpdateProfileEmail string string
  | SelectProfiles string
  | ResetPasswordForEmail string string
  | SignInWithOtp string otp_options
  | InviteUserByEmail string invite_options
  | DeleteUser string

text \<open>
  \<open>UpdateProfileEmail newEmail userId\<close> is
  \<open>from('profiles').update({ email: newEmail }).eq('id', userId)\<close>;
  \<open>SelectProfiles cols\<close> is \<open>from('profiles').select(cols)\<close>;
  \<open>ResetPasswordForEmail email redirectTo\<close>.
\<close>

record response =
  resp_data :: "profile list option"
  resp_error :: "string option"

datatype outcome = Returns response | Throws string

type_synonym 's service = "'s \<Rightarrow> request \<Rightarrow> outcome \<times> 's"

datatype event =
    Call request outcome
  | ConsoleError string string
  | ConsoleWarn string

record 's world =
  svc_state :: 's
  trace :: "event list"

datatype 'a completion = Done 'a | Raised string

type_synonym ('s, 'a) act = "'s world \<Rightarrow> 'a completion \<times> 's world"

subsection \<open>Effects\<close>

definition return_act :: "'a \<Rightarrow> ('s, 'a) act" where
  "return_act x w = (Done x, w)"

definition bind_act :: "('s, 'a) act \<Rightarrow> ('a \<Rightarrow> ('s, 'b) act) \<Rightarrow> ('s, 'b) act" where
  "bind_act m f w =
     (case m w of
        (Done x, w') \<Rightarrow> f x w'
      | (Raised e, w') \<Rightarrow> (Raised e, w'))"

text \<open>\<open>try { m } catch (error) { h error.message }\<close>\<close>

definition try_catch :: "('s, 'a) act \<Rightarrow> (string \<Rightarrow> ('s, 'a) act) \<Rightarrow> ('s, 'a) act" where
  "try_catch m h w =
     (case m w of
        (Done x, w') \<Rightarrow> (Done x, w')
      | (Raised e, w') \<Rightarrow> h e w')"

text \<open>An awaited call: recorded in the trace whether it returns or throws.\<close>

definition call :: "'s service \<Rightarrow> request \<Rightarrow> ('s, response) act" where
  "call svc rq w =
     (case svc (svc_state w) rq of
        (out, s') \<Rightarrow>
          (case out of
             Returns r \<Rightarrow> (Done r, \<lparr>svc_state = s', trace = trace w @ [Call rq out]\<rparr>)
           | Throws m \<Rightarrow> (Raised m, \<lparr>svc_state = s', trace = trace w @ [Call rq out]\<rparr>)))"

definition console_error :: "string \<Rightarrow> string \<Rightarrow> ('s, unit) act" where
  "console_error label detail w = (Done (), w\<lparr>trace := trace w @ [ConsoleError label detail]\<rparr>)"

definition console_warn :: "string \<Rightarrow> ('s, unit) act" where
  "console_warn text w = (Done (), w\<lparr>trace := trace w @ [ConsoleWarn text]\<rparr>)"

text \<open>\<open>process.env.NEXT_PUBLIC_SITE_URL || 'http://localhost:3000'\<close>: the variable may be
  unset, and \<open>||\<close> also replaces the empty string.\<close>

definition site_url :: "string option \<Rightarrow> string" where
  "site_url env =
     (case env of
        None \<Rightarrow> ''http://localhost:3000''
      | Some u \<Rightarrow> if u = [] then ''http://localhost:3000'' else u)"

text \<open>Decimal text of a count, as a template string prints a non-negative integer.\<close>

definition digit_char :: "nat \<Rightarrow> char" where
  "digit_char d = ''0123456789'' ! d"

fun show_nat :: "nat \<Rightarrow> string" where
  "show_nat n = (if n < 10 then [digit_char n] else show_nat (n div 10) @ [digit_char (n mod 10)])"

declare show_nat.simps [simp del]

subsection \<open>The actions\<close>

definition changeUserEmail_try :: "'s service \<Rightarrow> string \<Rightarrow> string \<Rightarrow> ('s, ActionResult) act" where
  "changeUserEmail_try svc userId newEmail =
     bind_act (call svc (CreateClient True)) (\<lambda>supabase.
     bind_act (call svc (UpdateUserById userId (EmailAttr newEmail))) (\<lambda>r.
       case resp_error r of
         Some msg \<Rightarrow>
           bind_act (console_error ''Error changing user email:'' msg) (\<lambda>_.
           return_act \<lparr>success = False, message = ''Failed to change user email'',
                       error = Some msg\<rparr>)
       | None \<Rightarrow>
           bind_act (call svc (UpdateProfileEmail newEmail userId)) (\<lambda>pr.
           bind_act
             (case resp_error pr of
                Some pmsg \<Rightarrow>
                  bind_act (console_error ''Error updating profile email:'' pmsg) (\<lambda>_.
                  console_warn
                    ''Profile email update failed, but auth email was updated successfully'')
              | None \<Rightarrow> return_act ()) (\<lambda>_.
           return_act \<lparr>success = True,
                       message = ''Email successfully changed to '' @ newEmail
                                 @ ''. User will receive a confirmation email.'',
                       error = None\<rparr>))))"

definition changeUserEmail :: "'s service \<Rightarrow> string \<Rightarrow> string \<Rightarrow> ('s, ActionResult) act" where
  "changeUserEmail svc userId newEmail =
     try_catch (changeUserEmail_try svc userId newEmail) (\<lambda>m.
       bind_act (console_error ''Unexpected error in changeUserEmail:'' m) (\<lambda>_.
       return_act \<lparr>success = False,
                   message = ''An unexpected error occurred while changing the email'',
                   error = Some m\<rparr>))"





text \<open>The parameter \<open>role\<close> has the default \<open>'client'\<close>: \<open>None\<close> is the call without it.\<close>

definition inviteUser_try :: "'s service \<Rightarrow> string option \<Rightarrow> string \<Rightarrow> role option \<Rightarrow> ('s, ActionResult) act" where
  "inviteUser_try svc env email role_arg =
     (let role = (case role_arg of None \<Rightarrow> client | Some r \<Rightarrow> r) in
      bind_act (call svc (CreateClient True)) (\<lambda>supabase.
      bind_act (call svc (InviteUserByEmail email
                  \<lparr>data_role = role_text role, app_metadata_role = role_text role,
                   redirectTo = site_url env @ ''/auth/callback''\<rparr>)) (\<lambda>r.
        case resp_error r of
          Some msg \<Rightarrow>
            bind_act (console_error ''Error inviting user:'' msg) (\<lambda>_.
            return_act \<lparr>success = False, message = ''Failed to send invitation'',
                        error = Some msg\<rparr>)
        | None \<Rightarrow>
            return_act \<lparr>success = True,
                        message = ''Invitation sent successfully to '' @ email,
                        error = None\<rparr>)))"

definition inviteUser :: "'s service \<Rightarrow> string option \<Rightarrow> string \<Rightarrow> role option \<Rightarrow> ('s, ActionResult) act" where
  "inviteUser svc env email role_arg =
     try_catch (inviteUser_try svc env email role_arg) (\<lambda>m.
       bind_act (console_error ''Unexpected error in inviteUser:'' m) (\<lambda>_.
       return_act \<lparr>success = False,
                   message = ''An unexpected error occurred while sending invitation'',
                   error = Some m\<rparr>))"







subsection \<open>Bulk synchronisation\<close>

text \<open>The loop variables \<open>successCount\<close>, \<open>errorCount\<close> and \<open>errors\<close>.\<close>

record sync_vars =
  successCount :: nat
  errorCount :: nat
  errors :: "string list"

text \<open>One iteration of the \<open>for ... of\<close> loop: the inner \<open>try\<close>/\<open>catch\<close>.\<close>

definition sync_step :: "'s service \<Rightarrow> profile \<Rightarrow> sync_vars \<Rightarrow> ('s, sync_vars) act" where
  "sync_step svc p v =
     try_catch
       (bind_act (call svc (UpdateUserById (profile_id p) (AppMetadataRole (profile_role p)))) (\<lambda>r.
          case resp_error r of
            Some msg \<Rightarrow>
              return_act (v\<lparr>errorCount := errorCount v + 1,
                            errors := errors v @ [''Error updating user '' @ profile_id p
                                                  @ '': '' @ msg]\<rparr>)
          | None \<Rightarrow> return_act (v\<lparr>successCount := successCount v + 1\<rparr>)))
       (\<lambda>m. return_act (v\<lparr>errorCount := errorCount v + 1,
                           errors := errors v @ [''Exception updating user '' @ profile_id p
                                                 @ '': '' @ m]\<rparr>))"

fun sync_loop :: "'s service \<Rightarrow> profile list \<Rightarrow> sync_vars \<Rightarrow> ('s, sync_vars) act" where
  "sync_loop svc [] v w = (Done v, w)"
| "sync_loop svc (p # ps) v w =
     (case sync_step svc p v w of
        (Done v', w') \<Rightarrow> sync_loop svc ps v' w'
      | (Raised e, w') \<Rightarrow> (Raised e, w'))"

definition syncAllUsersAppMetadata_try :: "'s service \<Rightarrow> ('s, ActionResult) act" where
  "syncAllUsersAppMetadata_try svc =
     bind_act (call svc (CreateClient True)) (\<lambda>supabase.
     bind_act (call svc (SelectProfiles ''id, role'')) (\<lambda>r.
       case resp_error r of
         Some msg \<Rightarrow>
           bind_act (console_error ''Error fetching profiles:'' msg) (\<lambda>_.
           return_act \<lparr>success = False, message = ''Failed to fetch profiles'',
                       error = Some msg\<rparr>)
       | None \<Rightarrow>
           (case resp_data r of
              None \<Rightarrow>
                return_act \<lparr>success = True, message = ''No profiles found to sync'',
                            error = None\<rparr>
            | Some profiles \<Rightarrow>
                if length profiles = 0 then
                  return_act \<lparr>success = True, message = ''No profiles found to sync'',
                              error = None\<rparr>
                else
                  bind_act (sync_loop svc profiles
                              \<lparr>successCount = 0, errorCount = 0, errors = []\<rparr>) (\<lambda>v.
                  return_act \<lparr>success = True,
                              message = ''Synced app_metadata for '' @ show_nat (successCount v)
                                        @ '' users. '' @ show_nat (errorCount v) @ '' errors.'',
                              error = None\<rparr>))))"

definition syncAllUsersAppMetadata :: "'s service \<Rightarrow> ('s, ActionResult) act" where
  "syncAllUsersAppMetadata svc =
     try_catch (syncAllUsersAppMetadata_try svc) (\<lambda>m.
       bind_act (console_error ''Unexpected error in syncAllUsersAppMetadata:'' m) (\<lambda>_.
       return_act \<lparr>success = False,
                   message = ''An unexpected error occurred while syncing user app_metadata'',
                   error = Some m\<rparr>))"

subsection \<open>The caller's view\<close>



definition start :: "'s \<Rightarrow> 's world" where
  "start s = \<lparr>svc_state = s, trace = []\<rparr>"




text \<open>Reading a trace: the requests issued, the outcomes received, whether an outcome counts
  as a failure (an error reported or an exception thrown) and the diagnostic text it carries.\<close>

fun calls_of :: "event list \<Rightarrow> request list" where
  "calls_of [] = []"
| "calls_of (Call rq out # es) = rq # calls_of es"
| "calls_of (e # es) = calls_of es"

fun failed :: "outcome \<Rightarrow> bool" where
  "failed (Throws m) = True"
| "failed (Returns r) = (resp_error r \<noteq> None)"



text \<open>A service for concrete runs: it hands out the outcomes of a script in order, whatever
  the request, and answers without error once the script is used up.\<close>

definition ok_response :: response where
  "ok_response = \<lparr>resp_data = None, resp_error = None\<rparr>"

fun scripted :: "outcome list service" where
  "scripted [] rq = (Returns ok_response, [])"
| "scripted (out # outs) rq = (out, outs)"


section \<open>Properties\<close>

subsection \<open>Unfolding and the synchronisation loop\<close>

lemmas act_defs = bind_act_def try_catch_def return_act_def call_def console_error_def
  console_warn_def start_def







subsection \<open>What the bulk synchronisation returns\<close>




subsection \<open>Fatal and empty reads of the bulk synchronisation\<close>

text \<open>
  C4. If the initial read of the profiles table reports an error, \<open>syncAllUsersAppMetadata\<close>
  returns \<open>success = false\<close> with \<open>error\<close> the text of the read error, and the run consists
  of the client acquisition, the read and one console line: no \<open>updateUserById\<close> call is
  issued and the service is left in the state the read put it in.
\<close>

theorem sync_read_failure_is_fatal:
  assumes "svc s (CreateClient True) = (Returns c, s1)"
    and "svc s1 (SelectProfiles ''id, role'') = (Returns rd, s2)"
    and "resp_error rd = Some m"
  shows "syncAllUsersAppMetadata svc (start s) =
           (Done \<lparr>success = False, message = ''Failed to fetch profiles'', error = Some m\<rparr>,
            \<lparr>svc_state = s2,
             trace = [Call (CreateClient True) (Returns c),
                      Call (SelectProfiles ''id, role'') (Returns rd),
                      ConsoleError ''Error fetching profiles:'' m]\<rparr>)"
  using assms
  by (simp add: syncAllUsersAppMetadata_def syncAllUsersAppMetadata_try_def act_defs)

theorem sync_read_failure_is_fatal_witness:
  "syncAllUsersAppMetadata scripted
     (start [Returns ok_response, Returns \<lparr>resp_data = None, resp_error = Some ''permission denied''\<rparr>,
             Returns ok_response]) =
     (Done \<lparr>success = False, message = ''Failed to fetch profiles'',
            error = Some ''permission denied''\<rparr>,
      \<lparr>svc_state = [Returns ok_response],
       trace = [Call (CreateClient True) (Returns ok_response),
                Call (SelectProfiles ''id, role'')
                  (Returns \<lparr>resp_data = None, resp_error = Some ''permission denied''\<rparr>),
                ConsoleError ''Error fetching profiles:'' ''permission denied'']\<rparr>)"
  using sync_read_failure_is_fatal [of scripted
      "[Returns ok_response, Returns \<lparr>resp_data = None, resp_error = Some ''permission denied''\<rparr>,
        Returns ok_response]"
      ok_response
      "[Returns \<lparr>resp_data = None, resp_error = Some ''permission denied''\<rparr>, Returns ok_response]"
      "\<lparr>resp_data = None, resp_error = Some ''permission denied''\<rparr>"
      "[Returns ok_response]" "''permission denied''"]
  by simp

text \<open>
  C7. If the read succeeds with no rows (an empty list or \<open>null\<close>),
  \<open>syncAllUsersAppMetadata\<close> returns \<open>success = true\<close> with the message
  "No profiles found to sync", and the only calls of the run are the client acquisition and
  the read.
\<close>

theorem sync_without_profiles:
  assumes "svc s (CreateClient True) = (Returns c, s1)"
    and "svc s1 (SelectProfiles ''id, role'') = (Returns rd, s2)"
    and "resp_error rd = None"
    and "resp_data rd = None \<or> resp_data rd = Some []"
  shows "syncAllUsersAppMetadata svc (start s) =
           (Done \<lparr>success = True, message = ''No profiles found to sync'', error = None\<rparr>,
            \<lparr>svc_state = s2,
             trace = [Call (CreateClient True) (Returns c),
                      Call (SelectProfiles ''id, role'') (Returns rd)]\<rparr>)"
  using assms
  by (auto simp add: syncAllUsersAppMetadata_def syncAllUsersAppMetadata_try_def act_defs)

theorem sync_without_profiles_witness:
  "syncAllUsersAppMetadata scripted
     (start [Returns ok_response, Returns \<lparr>resp_data = Some [], resp_error = None\<rparr>,
             Throws ''must not be called'']) =
     (Done \<lparr>success = True, message = ''No profiles found to sync'', error = None\<rparr>,
      \<lparr>svc_state = [Throws ''must not be called''],
       trace = [Call (CreateClient True) (Returns ok_response),
                Call (SelectProfiles ''id, role'')
                  (Returns \<lparr>resp_data = Some [], resp_error = None\<rparr>)]\<rparr>)"
  using sync_without_profiles [of scripted
      "[Returns ok_response, Returns \<lparr>resp_data = Some [], resp_error = None\<rparr>,
        Throws ''must not be called'']"
      ok_response
      "[Returns \<lparr>resp_data = Some [], resp_error = None\<rparr>, Throws ''must not be called'']"
      "\<lparr>resp_data = Some [], resp_error = None\<rparr>"
      "[Throws ''must not be called'']"]
  by simp

subsection \<open>The profile mirror of changeUserEmail\<close>

text \<open>
  C5. If the identity provider accepts the new email and the update of the \<open>profiles\<close> row
  reports an error, \<open>changeUserEmail\<close> still returns \<open>success = true\<close> with no \<open>error\<close>
  field; the failure only shows as two console lines.
\<close>

theorem changeUserEmail_mirror_failure_absorbed:
  assumes "svc s (CreateClient True) = (Returns c, s1)"
    and "svc s1 (UpdateUserById userId (EmailAttr newEmail)) = (Returns r, s2)"
    and "resp_error r = None"
    and "svc s2 (UpdateProfileEmail newEmail userId) = (Returns pr, s3)"
    and "resp_error pr = Some pm"
  shows "changeUserEmail svc userId newEmail (start s) =
           (Done \<lparr>success = True,
                  message = ''Email successfully changed to '' @ newEmail
                            @ ''. User will receive a confirmation email.'',
                  error = None\<rparr>,
            \<lparr>svc_state = s3,
             trace = [Call (CreateClient True) (Returns c),
                      Call (UpdateUserById userId (EmailAttr newEmail)) (Returns r),
                      Call (UpdateProfileEmail newEmail userId) (Returns pr),
                      ConsoleError ''Error updating profile email:'' pm,
                      ConsoleWarn ''Profile email update failed, but auth email was updated successfully'']\<rparr>)"
  using assms
  by (simp add: changeUserEmail_def changeUserEmail_try_def act_defs)

theorem changeUserEmail_mirror_failure_absorbed_witness:
  "changeUserEmail scripted ''u1'' ''new@example.com''
     (start [Returns ok_response, Returns ok_response,
             Returns \<lparr>resp_data = None, resp_error = Some ''row level security''\<rparr>]) =
     (Done \<lparr>success = True,
            message = ''Email successfully changed to new@example.com. User will receive a confirmation email.'',
            error = None\<rparr>,
      \<lparr>svc_state = [],
       trace = [Call (CreateClient True) (Returns ok_response),
                Call (UpdateUserById ''u1'' (EmailAttr ''new@example.com'')) (Returns ok_response),
                Call (UpdateProfileEmail ''new@example.com'' ''u1'')
                  (Returns \<lparr>resp_data = None, resp_error = Some ''row level security''\<rparr>),
                ConsoleError ''Error updating profile email:'' ''row level security'',
                ConsoleWarn ''Profile email update failed, but auth email was updated successfully'']\<rparr>)"
  using changeUserEmail_mirror_failure_absorbed [of scripted
      "[Returns ok_response, Returns ok_response,
        Returns \<lparr>resp_data = None, resp_error = Some ''row level security''\<rparr>]"
      ok_response
      "[Returns ok_response, Returns \<lparr>resp_data = None, resp_error = Some ''row level security''\<rparr>]"
      "''u1''" "''new@example.com''" ok_response
      "[Returns \<lparr>resp_data = None, resp_error = Some ''row level security''\<rparr>]"
      "\<lparr>resp_data = None, resp_error = Some ''row level security''\<rparr>" "[]" "''row level security''"]
  by (simp add: ok_response_def)

subsection \<open>No action raises\<close>



subsection \<open>The uniform result contract\<close>



subsection \<open>The role metadata of an invitation\<close>

text \<open>
  C8. Once the client is acquired, \<open>inviteUser\<close> issues exactly one invite request; its
  user-level role (\<open>data.role\<close>) and its app-level role (\<open>app_metadata.role\<close>) are the same
  value, which is \<open>"client"\<close> when the function is called without a role and the given role
  otherwise.
\<close>

theorem inviteUser_role_metadata:
  assumes "svc s (CreateClient True) = (Returns c, s1)"
  shows "\<exists>opts. calls_of (trace (snd (inviteUser svc env email role_arg (start s)))) =
                  [CreateClient True, InviteUserByEmail email opts]
           \<and> data_role opts = app_metadata_role opts
           \<and> (role_arg = None \<longrightarrow> data_role opts = ''client'' \<and> app_metadata_role opts = ''client'')
           \<and> (\<forall>r. role_arg = Some r \<longrightarrow>
                  data_role opts = role_text r \<and> app_metadata_role opts = role_text r)"
  using assms
  by (auto simp add: inviteUser_def inviteUser_try_def act_defs
      split: prod.splits outcome.splits option.splits)

theorem inviteUser_role_metadata_witness:
  "calls_of (trace (snd (inviteUser scripted None ''bob@example.org'' None (start [])))) =
     [CreateClient True,
      InviteUserByEmail ''bob@example.org''
        \<lparr>data_role = ''client'', app_metadata_role = ''client'',
         redirectTo = ''http://localhost:3000/auth/callback''\<rparr>]
   \<and> calls_of (trace (snd (inviteUser scripted None ''eve@example.org'' (Some admin) (start [])))) =
     [CreateClient True,
      InviteUserByEmail ''eve@example.org''
        \<lparr>data_role = ''admin'', app_metadata_role = ''admin'',
         redirectTo = ''http://localhost:3000/auth/callback''\<rparr>]"
  using inviteUser_role_metadata [of scripted "[]" ok_response "[]" None "''bob@example.org''" None]
    inviteUser_role_metadata [of scripted "[]" ok_response "[]" None "''eve@example.org''" "Some admin"]
  by (simp add: inviteUser_def inviteUser_try_def act_defs site_url_def ok_response_def)

subsection \<open>The invariant of ActionResult\<close>



subsection \<open>The loop of the bulk synchronisation\<close>





subsection \<open>The two one-time-passcode flows\<close>




end
